theory Spec2Isabelle
  imports Main "HOL-Library.Word"
begin

unbundle bit_operations_syntax

section \<open>Bytes, exceptions and sequencing\<close>

text \<open>
  A Python \<open>bytes\<close> object is a list of 8-bit words; \<open>byte_to_int\<close> is \<open>unat\<close>.
  Every exception class the modelled code raises or catches is a constructor of \<open>exn\<close>;
  a function that may raise returns \<open>exn + 'a\<close>, with \<open>Inl\<close> the raised exception.
\<close>

type_synonym byte = "8 word"
type_synonym bytes = "byte list"

datatype exn =
    ScriptError string
  | UnexpectedDER
  | ValueError
  | EncodingError
  | NoSuchPointError
  | IndexError
  | TypeError
  | StructError
  | UnboundLocalError
  | SolvingError string

fun bind_e :: "exn + 'a \<Rightarrow> ('a \<Rightarrow> exn + 'b) \<Rightarrow> exn + 'b" where
  "bind_e (Inl e) f = Inl e"
| "bind_e (Inr x) f = f x"

text \<open>\<open>byte_to_int(sig[i])\<close> for a non-negative index: IndexError past the end.\<close>

definition byte_at :: "bytes \<Rightarrow> nat \<Rightarrow> exn + nat" where
  "byte_at sig i = (if i < length sig then Inr (unat (sig ! i)) else Inl IndexError)"

section \<open>Signature codec (check\_signature.py)\<close>

text \<open>
  The condition \<open>n > 1 and byte_to_int(sig[i]) == 0 and not (byte_to_int(sig[i + 1]) & 0x80)\<close>
  of \<open>check_valid_signature\<close>, with Python's left-to-right short-circuit evaluation.
\<close>

definition superfluous_zero :: "bytes \<Rightarrow> nat \<Rightarrow> nat \<Rightarrow> exn + bool" where
  "superfluous_zero sig n i =
     (if 1 < n then
        bind_e (byte_at sig i) (\<lambda>b.
          if b = 0 then bind_e (byte_at sig (i + 1)) (\<lambda>c. Inr (c AND 0x80 = 0))
          else Inr False)
      else Inr False)"

definition check_valid_signature :: "bytes \<Rightarrow> exn + unit" where
  "check_valid_signature sig =
     (let ls = length sig in
      if ls < 9 \<or> 73 < ls then Inl (ScriptError ''bad signature size'') else
      bind_e (byte_at sig 0) (\<lambda>b0.
      if b0 \<noteq> 0x30 then Inl (ScriptError ''bad signature byte 0'') else
      bind_e (byte_at sig 1) (\<lambda>b1.
      if b1 \<noteq> ls - 3 then Inl (ScriptError ''signature size wrong'') else
      bind_e (byte_at sig 3) (\<lambda>r_len.
      if ls \<le> 5 + r_len then Inl (ScriptError ''r length exceed signature size'') else
      bind_e (byte_at sig (5 + r_len)) (\<lambda>s_len.
      if r_len + s_len + 7 \<noteq> ls
        then Inl (ScriptError ''r and s size exceed signature size'') else
      bind_e (byte_at sig 2) (\<lambda>b2.
      if b2 \<noteq> 2 then Inl (ScriptError ''R value region does not start with 0x02'') else
      if r_len = 0 then Inl (ScriptError ''zero-length R value'') else
      bind_e (byte_at sig 4) (\<lambda>b4.
      if b4 AND 0x80 \<noteq> 0
        then Inl (ScriptError ''sig R value not allowed to be negative'') else
      bind_e (superfluous_zero sig r_len 4) (\<lambda>rz.
      if rz then Inl (ScriptError
        ''sig R value not allowed to have leading 0 byte unless doing so would make it negative'')
      else
      bind_e (byte_at sig (r_len + 4)) (\<lambda>t.
      if t \<noteq> 2 then Inl (ScriptError ''S value region does not start with 0x02'') else
      if s_len = 0 then Inl (ScriptError ''zero-length S value'') else
      bind_e (byte_at sig (r_len + 6)) (\<lambda>b6.
      if b6 AND 0x80 \<noteq> 0 then Inl (ScriptError ''negative S values not allowed'') else
      bind_e (superfluous_zero sig s_len (r_len + 6)) (\<lambda>sz.
      if sz then Inl (ScriptError
        ''sig S value not allowed to have leading 0 byte unless doing so would make it negative'')
      else Inr ())))))))))))"

text \<open>
  The DER signature grammar in the words of the specification: the blob is
  \<open>30 LL 02 rlen r... 02 slen s...\<close> followed by one hash-type byte, \<open>LL\<close> is the total
  length minus 3, and each of r and s is non-empty, has the high bit of its first byte
  clear and carries no superfluous leading zero byte.
\<close>

definition minimal_nonneg :: "bytes \<Rightarrow> bool" where
  "minimal_nonneg v \<longleftrightarrow>
     v \<noteq> [] \<and> unat (hd v) < 0x80 \<and> \<not> (1 < length v \<and> hd v = 0 \<and> unat (v ! 1) < 0x80)"

definition der_layout :: "bytes \<Rightarrow> bool" where
  "der_layout sig \<longleftrightarrow>
     9 \<le> length sig \<and> length sig \<le> 73 \<and>
     (\<exists>r s ht. sig = [0x30, of_nat (length sig - 3), 0x02, of_nat (length r)] @ r @
                      [0x02, of_nat (length s)] @ s @ [ht]
               \<and> minimal_nonneg r \<and> minimal_nonneg s)"

text \<open>
  \<open>check_low_der_signature\<close> compares against the constant \<open>_p\<close> that it imports from
  \<open>pycoin.ecdsa.secp256k1\<close>; the constant is the first argument here.
\<close>

definition check_low_der_signature :: "int \<Rightarrow> int \<times> int \<Rightarrow> exn + unit" where
  "check_low_der_signature p sig_pair =
     (case sig_pair of (r, s) \<Rightarrow>
        let hi_s = p - s in
        if hi_s < s then Inl (ScriptError ''signature has high S value'') else Inr ())"

text \<open>
  The module \<open>pycoin/ecdsa/secp256k1.py\<close> is not among the source files. It holds the
  parameters of the curve secp256k1 (SEC 2, section 2.4.1): \<open>_p\<close> is the prime of the field
  the curve is defined over, and \<open>_r\<close> is the order of the generator (the group order).
\<close>

definition secp256k1_p :: int where
  "secp256k1_p = 0xFFFFFFFFFFFFFFFFFFFFFFFFFFFFFFFFFFFFFFFFFFFFFFFFFFFFFFFEFFFFFC2F"

definition secp256k1_r :: int where
  "secp256k1_r = 0xFFFFFFFFFFFFFFFFFFFFFFFFFFFFFFFEBAAEDCE6AF48A03BBFD25E8CD0364141"

section \<open>Opcode reader and push-data encoder (tools.py)\<close>

text \<open>
  Modelled from the spec: \<open>opcodes.py\<close>, which holds the tables \<open>OPCODE_TO_INT\<close> and
  \<open>INT_TO_OPCODE\<close>, is not among the source files. Section 6 of the specification fixes
  the entries the reader and the encoder look up: 0x00 is "push empty", 0x4c, 0x4d and 0x4e
  are PUSHDATA1, PUSHDATA2 and PUSHDATA4, and 0x51 to 0x60 are "push small integer 1 to 16".
  \<open>small_int_opcode v\<close> is \<open>OPCODE_TO_INT["OP_%d" % v]\<close> for \<open>v \<le> 16\<close>.
\<close>

definition OP_0 :: nat where "OP_0 = 0x00"
definition OP_PUSHDATA1 :: nat where "OP_PUSHDATA1 = 0x4c"
definition OP_PUSHDATA2 :: nat where "OP_PUSHDATA2 = 0x4d"
definition OP_PUSHDATA4 :: nat where "OP_PUSHDATA4 = 0x4e"

definition small_int_opcode :: "nat \<Rightarrow> nat" where
  "small_int_opcode v = (if v = 0 then OP_0 else 0x50 + v)"

text \<open>
  \<open>from_bytes(b, byteorder="little")\<close>; the empty byte string gives 0, as
  \<open>int.from_bytes\<close> does.
\<close>

fun from_bytes_le :: "bytes \<Rightarrow> nat" where
  "from_bytes_le [] = 0"
| "from_bytes_le (b # bs) = unat b + 256 * from_bytes_le bs"

text \<open>The slice \<open>script[a:a + n]\<close> for non-negative \<open>a\<close> and \<open>n\<close>.\<close>

definition py_slice :: "'a list \<Rightarrow> nat \<Rightarrow> nat \<Rightarrow> 'a list" where
  "py_slice xs a n = take n (drop a xs)"

text \<open>
  \<open>get_opcode(script, pc)\<close> returns the opcode, the data (\<open>None\<close> for an opcode that
  pushes no data) and the new cursor. \<open>ord\<close> of the empty slice raises TypeError. The
  \<open>elif\<close> chain of the source has no final \<open>else\<close>: were no branch taken, \<open>size\<close> would
  be unbound.
\<close>

definition get_opcode :: "bytes \<Rightarrow> nat \<Rightarrow> exn + (nat \<times> bytes option \<times> nat)" where
  "get_opcode script pc =
     (case py_slice script pc 1 of
        [] \<Rightarrow> Inl TypeError
      | b # _ \<Rightarrow>
          let opcode = unat b; pc = pc + 1 in
          if opcode \<le> OP_PUSHDATA4 then
            bind_e
              (if opcode < OP_PUSHDATA1 then Inr (opcode, pc)
               else if opcode = OP_PUSHDATA1 then Inr (from_bytes_le (py_slice script pc 1), pc + 1)
               else if opcode = OP_PUSHDATA2 then Inr (from_bytes_le (py_slice script pc 2), pc + 2)
               else if opcode = OP_PUSHDATA4 then Inr (from_bytes_le (py_slice script pc 4), pc + 4)
               else Inl UnboundLocalError)
              (\<lambda>(size, pc).
                 let data = py_slice script pc size in
                 if length data < size
                 then Inl (ScriptError ''unexpected end of data when literal expected'')
                 else Inr (opcode, Some data, pc + size))
          else Inr (opcode, None, pc))"

text \<open>
  \<open>bytes_from_int(x)\<close> is \<open>bytes([x])\<close>, which raises ValueError outside \<open>range(256)\<close>.
  \<open>int_to_bytes(n)\<close> writes the literal length; modelled from the spec (\<open>intbytes.py\<close> is
  not among the source files): the length of a literal push or of a PUSHDATA1 is one byte.
  \<open>struct.pack("<H", n)\<close> and \<open>struct.pack("<L", n)\<close> are the 2- and 4-byte little-endian
  encodings, raising \<open>struct.error\<close> when the number does not fit.
\<close>

definition bytes_from_int :: "nat \<Rightarrow> exn + bytes" where
  "bytes_from_int x = (if x < 256 then Inr [of_nat x] else Inl ValueError)"

definition int_to_bytes :: "nat \<Rightarrow> exn + bytes" where
  "int_to_bytes n = (if n < 256 then Inr [of_nat n] else Inl ValueError)"

definition pack_H :: "nat \<Rightarrow> exn + bytes" where
  "pack_H n = (if n < 65536 then Inr [of_nat (n mod 256), of_nat (n div 256)]
               else Inl StructError)"

definition pack_L :: "nat \<Rightarrow> exn + bytes" where
  "pack_L n = (if n < 4294967296
               then Inr [of_nat (n mod 256), of_nat (n div 256 mod 256),
                         of_nat (n div 65536 mod 256), of_nat (n div 16777216)]
               else Inl StructError)"

text \<open>
  \<open>write_push_data(data_list, f)\<close>: the stream \<open>f\<close> is the bytes written so far, and the
  result is the stream after the call. \<open>push_data t\<close> is what one turn of the loop writes
  for the blob \<open>t\<close>.
\<close>

definition push_data :: "bytes \<Rightarrow> exn + bytes" where
  "push_data t =
     (if length t = 0 then bytes_from_int OP_0
      else if length t = 1 \<and> unat (t ! 0) \<le> 16
        then bytes_from_int (small_int_opcode (unat (t ! 0)))
      else if length t \<le> 255 then
        bind_e (if 75 < length t then bytes_from_int OP_PUSHDATA1 else Inr []) (\<lambda>p.
        bind_e (int_to_bytes (length t)) (\<lambda>l. Inr (p @ l @ t)))
      else if length t \<le> 65535 then
        bind_e (bytes_from_int OP_PUSHDATA2) (\<lambda>p.
        bind_e (pack_H (length t)) (\<lambda>l. Inr (p @ l @ t)))
      else
        bind_e (bytes_from_int OP_PUSHDATA4) (\<lambda>p.
        bind_e (pack_L (length t)) (\<lambda>l. Inr (p @ l @ t))))"

fun write_push_data :: "bytes list \<Rightarrow> bytes \<Rightarrow> exn + bytes" where
  "write_push_data [] f = Inr f"
| "write_push_data (t # ts) f = bind_e (push_data t) (\<lambda>w. write_push_data ts (f @ w))"

definition bin_script :: "bytes list \<Rightarrow> exn + bytes" where
  "bin_script data_list = write_push_data data_list []"

text \<open>
  \<open>delete_subscript(script, subscript)\<close>: the loop \<open>while pc < len(script)\<close> with its
  cursor and the script built so far; \<open>script[pc:new_pc]\<close> is the section just decoded.
\<close>

function delete_subscript_from :: "bytes \<Rightarrow> bytes \<Rightarrow> nat \<Rightarrow> bytes \<Rightarrow> exn + bytes" where
  "delete_subscript_from script subscript pc new_script =
     (if pc < length script then
        (case get_opcode script pc of
           Inl e \<Rightarrow> Inl e
         | Inr (opcode, data, new_pc) \<Rightarrow>
             let section = py_slice script pc (new_pc - pc) in
             delete_subscript_from script subscript new_pc
               (if section \<noteq> subscript then new_script @ section else new_script))
      else Inr new_script)"
  by pat_completeness auto
termination
  by (relation "measure (\<lambda>(script, subscript, pc, new_script). length script - pc)")
     (auto simp: get_opcode_def Let_def split: list.splits if_splits prod.splits)

definition delete_subscript :: "bytes \<Rightarrow> bytes \<Rightarrow> exn + bytes" where
  "delete_subscript script subscript = delete_subscript_from script subscript 0 []"

section \<open>Script assembler and disassembler (tools.py)\<close>

text \<open>
  Script text is a \<open>string\<close>; the texts handled here are ASCII, so a character is a byte
  and \<open>encode("utf8")\<close> maps each character to its byte. \<open>py_split\<close> is \<open>str.split()\<close>,
  which cuts at runs of whitespace and yields no empty token; \<open>join_space\<close> is
  \<open>' '.join\<close>. \<open>hexlify\<close> writes lower-case digits; \<open>unhexlify\<close> accepts both cases and
  raises \<open>binascii.Error\<close>, a subclass of ValueError, on an odd length or a character
  that is no hex digit.
\<close>

definition is_space :: "char \<Rightarrow> bool" where
  "is_space c \<longleftrightarrow>
     c \<in> set [CHR 0x09, CHR 0x0A, CHR 0x0B, CHR 0x0C, CHR 0x0D,
               CHR 0x1C, CHR 0x1D, CHR 0x1E, CHR 0x1F, CHR 0x20]"

fun split_from :: "string \<Rightarrow> string \<Rightarrow> string list" where
  "split_from cur [] = (if cur = [] then [] else [cur])"
| "split_from cur (c # cs) =
     (if is_space c then (if cur = [] then split_from [] cs else cur # split_from [] cs)
      else split_from (cur @ [c]) cs)"

definition py_split :: "string \<Rightarrow> string list" where
  "py_split s = split_from [] s"

fun join_space :: "string list \<Rightarrow> string" where
  "join_space [] = []"
| "join_space [t] = t"
| "join_space (t # ts) = t @ '' '' @ join_space ts"

definition hex_digit :: "nat \<Rightarrow> char" where
  "hex_digit n = ''0123456789abcdef'' ! n"

fun hexlify :: "bytes \<Rightarrow> string" where
  "hexlify [] = []"
| "hexlify (b # bs) = hex_digit (unat b div 16) # hex_digit (unat b mod 16) # hexlify bs"

definition hex_value :: "char \<Rightarrow> nat option" where
  "hex_value =
     map_of [(CHR ''0'', 0), (CHR ''1'', 1), (CHR ''2'', 2), (CHR ''3'', 3), (CHR ''4'', 4),
             (CHR ''5'', 5), (CHR ''6'', 6), (CHR ''7'', 7), (CHR ''8'', 8), (CHR ''9'', 9),
             (CHR ''a'', 10), (CHR ''b'', 11), (CHR ''c'', 12), (CHR ''d'', 13),
             (CHR ''e'', 14), (CHR ''f'', 15),
             (CHR ''A'', 10), (CHR ''B'', 11), (CHR ''C'', 12), (CHR ''D'', 13),
             (CHR ''E'', 14), (CHR ''F'', 15)]"

fun unhexlify :: "string \<Rightarrow> exn + bytes" where
  "unhexlify [] = Inr []"
| "unhexlify [c] = Inl ValueError"
| "unhexlify (c # d # cs) =
     (case (hex_value c, hex_value d) of
        (Some h, Some l) \<Rightarrow> bind_e (unhexlify cs) (\<lambda>bs. Inr (of_nat (16 * h + l) # bs))
      | _ \<Rightarrow> Inl ValueError)"

definition encode_utf8 :: "string \<Rightarrow> bytes" where
  "encode_utf8 s = map of_char s"

text \<open>
  \<open>compile(s)\<close>. The tables \<open>OPCODE_TO_INT\<close> and \<open>INT_TO_OPCODE\<close> of the missing
  \<open>opcodes.py\<close> are parameters, as partial maps. \<open>compile_token\<close> is what one turn of
  the loop writes for the token \<open>t\<close>; a token of \<open>str.split()\<close> is never empty, so \<open>t[0]\<close>
  and \<open>t[-1]\<close> are its first and last characters, and \<open>t[1:-1]\<close> drops both.
\<close>

definition compile_token :: "(string \<rightharpoonup> nat) \<Rightarrow> string \<Rightarrow> exn + bytes" where
  "compile_token OPCODE_TO_INT t =
     (case OPCODE_TO_INT t of
        Some b \<Rightarrow> bytes_from_int b
      | None \<Rightarrow>
         (case OPCODE_TO_INT (''OP_'' @ t) of
            Some b \<Rightarrow> bytes_from_int b
          | None \<Rightarrow>
             if take 2 t = ''0x'' then unhexlify (drop 2 t)
             else
               let t = (if hd t = CHR ''['' \<and> last t = CHR '']'' then butlast (tl t) else t) in
               bind_e (if t \<noteq> [] \<and> hd t = CHR 0x27 \<and> last t = CHR 0x27
                       then Inr (encode_utf8 (butlast (tl t)))
                       else unhexlify t) (\<lambda>v.
               write_push_data [v] [])))"

fun compile_tokens :: "(string \<rightharpoonup> nat) \<Rightarrow> string list \<Rightarrow> bytes \<Rightarrow> exn + bytes" where
  "compile_tokens OPCODE_TO_INT [] f = Inr f"
| "compile_tokens OPCODE_TO_INT (t # ts) f =
     bind_e (compile_token OPCODE_TO_INT t) (\<lambda>w. compile_tokens OPCODE_TO_INT ts (f @ w))"

definition compile :: "(string \<rightharpoonup> nat) \<Rightarrow> string \<Rightarrow> exn + bytes" where
  "compile OPCODE_TO_INT s = compile_tokens OPCODE_TO_INT (py_split s) []"

definition disassemble_for_opcode_data :: "(nat \<rightharpoonup> string) \<Rightarrow> nat \<Rightarrow> bytes option \<Rightarrow> string" where
  "disassemble_for_opcode_data INT_TO_OPCODE opcode data =
     (case data of
        Some d \<Rightarrow>
          if 0 < length d then ''['' @ hexlify d @ '']''
          else (case INT_TO_OPCODE opcode of Some name \<Rightarrow> name | None \<Rightarrow> ''???'')
      | None \<Rightarrow> (case INT_TO_OPCODE opcode of Some name \<Rightarrow> name | None \<Rightarrow> ''???''))"

function opcode_list_from ::
  "(nat \<rightharpoonup> string) \<Rightarrow> bytes \<Rightarrow> nat \<Rightarrow> string list \<Rightarrow> exn + string list" where
  "opcode_list_from INT_TO_OPCODE script pc opcodes =
     (if pc < length script then
        (case get_opcode script pc of
           Inl e \<Rightarrow> Inl e
         | Inr (opcode, data, new_pc) \<Rightarrow>
             opcode_list_from INT_TO_OPCODE script new_pc
               (opcodes @ [disassemble_for_opcode_data INT_TO_OPCODE opcode data]))
      else Inr opcodes)"
  by pat_completeness auto
termination
  by (relation "measure (\<lambda>(INT_TO_OPCODE, script, pc, opcodes). length script - pc)")
     (auto simp: get_opcode_def Let_def split: list.splits if_splits prod.splits)

definition opcode_list :: "(nat \<rightharpoonup> string) \<Rightarrow> bytes \<Rightarrow> exn + string list" where
  "opcode_list INT_TO_OPCODE script = opcode_list_from INT_TO_OPCODE script 0 []"

definition disassemble :: "(nat \<rightharpoonup> string) \<Rightarrow> bytes \<Rightarrow> exn + string" where
  "disassemble INT_TO_OPCODE script =
     bind_e (opcode_list INT_TO_OPCODE script) (\<lambda>opcodes. Inr (join_space opcodes))"

text \<open>
  Modelled from the spec: the part of the opcode table used in the examples. Section 6 of
  the specification gives 0x00, 0x4c to 0x4e, 0x51 to 0x60, 0xac and 0xae; the other values
  are those of the Bitcoin protocol. \<open>INT_TO_OPCODE\<close> is the table read backwards.
\<close>

definition OPCODE_LIST :: "(string \<times> nat) list" where
  "OPCODE_LIST =
     [(''OP_0'', 0), (''OP_PUSHDATA1'', 76), (''OP_PUSHDATA2'', 77), (''OP_PUSHDATA4'', 78),
      (''OP_1NEGATE'', 79), (''OP_1'', 81), (''OP_2'', 82), (''OP_3'', 83), (''OP_4'', 84),
      (''OP_5'', 85), (''OP_6'', 86), (''OP_7'', 87), (''OP_8'', 88), (''OP_9'', 89),
      (''OP_10'', 90), (''OP_11'', 91), (''OP_12'', 92), (''OP_13'', 93), (''OP_14'', 94),
      (''OP_15'', 95), (''OP_16'', 96), (''OP_VERIFY'', 105), (''OP_RETURN'', 106),
      (''OP_DUP'', 118), (''OP_EQUAL'', 135), (''OP_EQUALVERIFY'', 136),
      (''OP_HASH160'', 169), (''OP_CODESEPARATOR'', 171), (''OP_CHECKSIG'', 172),
      (''OP_CHECKSIGVERIFY'', 173), (''OP_CHECKMULTISIG'', 174),
      (''OP_CHECKMULTISIGVERIFY'', 175)]"

definition OPCODE_TO_INT :: "string \<rightharpoonup> nat" where
  "OPCODE_TO_INT = map_of OPCODE_LIST"

definition INT_TO_OPCODE :: "nat \<rightharpoonup> string" where
  "INT_TO_OPCODE = map_of (map (\<lambda>(name, v). (v, name)) OPCODE_LIST)"

text \<open>
  \<open>standard_tx_out_script\<close> (TxOut.py), from the hash160 that the address decodes to; the
  address decoder is outside the source files.
\<close>

definition standard_tx_out_script :: "(string \<rightharpoonup> nat) \<Rightarrow> bytes \<Rightarrow> exn + bytes" where
  "standard_tx_out_script table hash160 =
     compile table (''OP_DUP OP_HASH160 '' @ hexlify hash160 @ '' OP_EQUALVERIFY OP_CHECKSIG'')"

section \<open>Signature checking opcodes (check\_signature.py)\<close>

text \<open>
  Modelled from the spec: \<open>flags.py\<close> is not among the source files. The verification flags
  are independently togglable bits (section 6); \<open>flags & VERIFY_X\<close> is the field
  \<open>VERIFY_X\<close> of the record.
\<close>

record flags =
  VERIFY_STRICTENC :: bool
  VERIFY_DERSIG :: bool
  VERIFY_LOW_S :: bool
  VERIFY_NULLDUMMY :: bool
  VERIFY_MINIMALDATA :: bool

text \<open>
  Modelled from the spec: \<open>microcode.py\<close> is not among the source files. \<open>VCH_TRUE\<close> and
  \<open>VCH_FALSE\<close> are the stack values "true" and "false": the byte 0x01 and the empty blob.
\<close>

definition VCH_TRUE :: bytes where "VCH_TRUE = [0x01]"
definition VCH_FALSE :: bytes where "VCH_FALSE = []"

text \<open>
  The collaborators whose code is outside the source files are the fields of \<open>env\<close>:
  \<open>der.sigdecode_der(blob, use_broken_open_ssl_mechanism=True)\<close>,
  \<open>sec_to_public_pair(blob, strict=b)\<close>, \<open>ecdsa.verify(generator_secp256k1, ...)\<close>,
  \<open>ecdsa.possible_public_pairs_for_signature(generator_secp256k1, ...)\<close>,
  \<open>int_from_script_bytes(blob, require_minimal=b)\<close>, and the constant \<open>_p\<close> that
  \<open>check_low_der_signature\<close> imports. Each may raise. The exception classes of \<open>exn\<close> are
  taken to be unrelated by inheritance, so that \<open>except (der.UnexpectedDER, ValueError,
  EncodingError)\<close> catches exactly those three.
\<close>

type_synonym pair = "int \<times> int"

record env =
  sigdecode_der :: "bytes \<Rightarrow> exn + pair"
  sec_to_public_pair :: "bytes \<Rightarrow> bool \<Rightarrow> exn + pair"
  ecdsa_verify :: "pair \<Rightarrow> int \<Rightarrow> pair \<Rightarrow> exn + bool"
  possible_public_pairs_for_signature :: "int \<Rightarrow> pair \<Rightarrow> exn + pair list"
  int_from_script_bytes :: "bytes \<Rightarrow> bool \<Rightarrow> exn + int"
  low_s_constant :: int

text \<open>
  \<open>check_defined_hashtype_signature\<close>: SIGHASH\_ALL = 1, SIGHASH\_SINGLE = 3 and
  SIGHASH\_ANYONECANPAY = 0x80 (section 6 of the specification; \<open>Tx.py\<close> is not among the
  source files).
\<close>

definition check_defined_hashtype_signature :: "bytes \<Rightarrow> exn + unit" where
  "check_defined_hashtype_signature sig =
     (if length sig = 0 then Inl (ScriptError ''signature is length 0'')
      else
        let hash_type = int (unat (last sig)) AND NOT 0x80 in
        if hash_type < 1 \<or> 3 < hash_type then Inl (ScriptError ''bad hash type after signature'')
        else Inr ())"


definition parse_signature_blob :: "env \<Rightarrow> bytes \<Rightarrow> flags \<Rightarrow> exn + (pair \<times> nat)" where
  "parse_signature_blob env sig_blob flags =
     (if length sig_blob = 0 then Inr ((0, 0), 0)
      else
        bind_e (if VERIFY_DERSIG flags \<or> VERIFY_LOW_S flags \<or> VERIFY_STRICTENC flags
                then check_valid_signature sig_blob else Inr ()) (\<lambda>_.
        bind_e (if VERIFY_STRICTENC flags
                then check_defined_hashtype_signature sig_blob else Inr ()) (\<lambda>_.
        bind_e (sigdecode_der env (butlast sig_blob)) (\<lambda>sig_pair.
        let signature_type = unat (last sig_blob) in
        bind_e (if VERIFY_LOW_S flags
                then check_low_der_signature (low_s_constant env) sig_pair else Inr ()) (\<lambda>_.
        Inr (sig_pair, signature_type))))))"

definition check_public_key_encoding :: "bytes \<Rightarrow> exn + unit" where
  "check_public_key_encoding blob =
     (let lb = length blob in
      if 33 \<le> lb \<and>
         (let fb = unat (blob ! 0) in
          if fb = 4 then lb = 65 else if fb = 2 \<or> fb = 3 then lb = 33 else False)
      then Inr ()
      else Inl (ScriptError ''invalid public key blob''))"

text \<open>
  The stack is a Python list, its top the last element: \<open>stack.pop()\<close> raises IndexError
  on the empty list, \<open>stack.append(x)\<close> is \<open>stack @ [x]\<close>.
\<close>

definition pop :: "'a list \<Rightarrow> exn + ('a \<times> 'a list)" where
  "pop stack = (if stack = [] then Inl IndexError else Inr (last stack, butlast stack))"

definition caught :: "exn \<Rightarrow> bool" where
  "caught e \<longleftrightarrow> e = UnexpectedDER \<or> e = ValueError \<or> e = EncodingError"

text \<open>
  \<open>op_checksig\<close> returns the stack it leaves. \<open>signature_for_hash_type_f\<close> is the digest
  provider; it may raise.
\<close>

definition op_checksig ::
  "env \<Rightarrow> bytes list \<Rightarrow> (nat \<Rightarrow> bytes \<Rightarrow> exn + int) \<Rightarrow> nat option \<Rightarrow> bytes \<Rightarrow> flags
     \<Rightarrow> exn + bytes list" where
  "op_checksig env stack signature_for_hash_type_f expected_hash_type tmp_script flags =
     bind_e (pop stack) (\<lambda>(pair_blob, stack).
     bind_e (pop stack) (\<lambda>(sig_blob, stack).
     let verify_strict = VERIFY_STRICTENC flags in
     case
       bind_e (if verify_strict then check_public_key_encoding pair_blob else Inr ()) (\<lambda>_.
       bind_e (parse_signature_blob env sig_blob flags) (\<lambda>(sig_pair, signature_type).
       bind_e (sec_to_public_pair env pair_blob verify_strict) (\<lambda>public_pair.
       Inr (sig_pair, signature_type, public_pair))))
     of
       Inl e \<Rightarrow> if caught e then Inr (stack @ [VCH_FALSE]) else Inl e
     | Inr (sig_pair, signature_type, public_pair) \<Rightarrow>
         if expected_hash_type \<noteq> None \<and> expected_hash_type \<noteq> Some signature_type
         then Inl (ScriptError ''wrong hash type'')
         else
           bind_e (bin_script [sig_blob]) (\<lambda>subscript.
           bind_e (delete_subscript tmp_script subscript) (\<lambda>tmp_script.
           bind_e (signature_for_hash_type_f signature_type tmp_script) (\<lambda>signature_hash.
           bind_e (ecdsa_verify env public_pair signature_hash sig_pair) (\<lambda>ok.
           if ok then Inr (stack @ [VCH_TRUE]) else Inr (stack @ [VCH_FALSE])))))))"

text \<open>
  \<open>sig_blob_matches\<close>. The first loop drops every signature from the script.
\<close>

fun drop_signatures :: "bytes list \<Rightarrow> bytes \<Rightarrow> exn + bytes" where
  "drop_signatures [] tmp_script = Inr tmp_script"
| "drop_signatures (sig_blob # sig_blobs) tmp_script =
     bind_e (bin_script [sig_blob]) (\<lambda>subscript.
     bind_e (delete_subscript tmp_script subscript) (\<lambda>tmp_script.
     drop_signatures sig_blobs tmp_script))"

text \<open>
  The inner loop \<open>for idx, ppb in enumerate(public_pair_blobs)\<close>, from index \<open>idx\<close> on:
  \<open>Some idx\<close> when the loop breaks at \<open>idx\<close>, \<open>None\<close> when it runs to its \<open>else\<close>. A blob
  that \<open>sec_to_public_pair\<close> refuses with EncodingError gives \<open>pp = None\<close>, which is in no
  list of candidate pairs.
\<close>

fun scan_keys ::
  "env \<Rightarrow> bool \<Rightarrow> pair list \<Rightarrow> int list \<Rightarrow> nat \<Rightarrow> bytes list \<Rightarrow> exn + nat option" where
  "scan_keys env strict_encoding ppp sig_blob_indices idx [] = Inr None"
| "scan_keys env strict_encoding ppp sig_blob_indices idx (ppb # rest) =
     (if int idx \<in> set sig_blob_indices
      then scan_keys env strict_encoding ppp sig_blob_indices (idx + 1) rest
      else
        bind_e (if strict_encoding then check_public_key_encoding ppb else Inr ()) (\<lambda>_.
        case sec_to_public_pair env ppb strict_encoding of
          Inl e \<Rightarrow>
            if e = EncodingError
            then scan_keys env strict_encoding ppp sig_blob_indices (idx + 1) rest
            else Inl e
        | Inr pp \<Rightarrow>
            if pp \<in> set ppp then Inr (Some idx)
            else scan_keys env strict_encoding ppp sig_blob_indices (idx + 1) rest))"

text \<open>
  The main loop \<open>for sig_blob in sig_blobs\<close>, with the list \<open>sig_blob_indices\<close> and the
  dictionary \<open>sig_cache\<close> it updates. The result is the list the function returns, at an
  early \<open>return\<close> or after the last signature.
\<close>

fun match_loop ::
  "env \<Rightarrow> flags \<Rightarrow> bool \<Rightarrow> bytes list \<Rightarrow> (nat \<Rightarrow> bytes \<Rightarrow> exn + int) \<Rightarrow> bytes
     \<Rightarrow> bytes list \<Rightarrow> int list \<Rightarrow> (nat \<rightharpoonup> int) \<Rightarrow> exn + int list" where
  "match_loop env flags exit_early public_pair_blobs signature_for_hash_type_f tmp_script
     [] sig_blob_indices sig_cache = Inr sig_blob_indices"
| "match_loop env flags exit_early public_pair_blobs signature_for_hash_type_f tmp_script
     (sig_blob # rest) sig_blob_indices sig_cache =
     (case parse_signature_blob env sig_blob flags of
        Inl e \<Rightarrow>
          if e = UnexpectedDER then
            let sig_blob_indices = sig_blob_indices @ [- 1] in
            if exit_early then Inr sig_blob_indices
            else match_loop env flags exit_early public_pair_blobs signature_for_hash_type_f
                   tmp_script rest sig_blob_indices sig_cache
          else Inl e
      | Inr (sig_pair, signature_type) \<Rightarrow>
          bind_e (case sig_cache signature_type of
                    Some h \<Rightarrow> Inr (h, sig_cache)
                  | None \<Rightarrow>
                      bind_e (signature_for_hash_type_f signature_type tmp_script) (\<lambda>h.
                      Inr (h, sig_cache(signature_type \<mapsto> h)))) (\<lambda>(h, sig_cache).
          bind_e (case possible_public_pairs_for_signature env h sig_pair of
                    Inl e \<Rightarrow> if e = NoSuchPointError then Inr [] else Inl e
                  | Inr ppp \<Rightarrow> Inr ppp) (\<lambda>ppp.
          if 0 < length ppp then
            bind_e (scan_keys env (VERIFY_STRICTENC flags) ppp sig_blob_indices 0
                      public_pair_blobs) (\<lambda>found.
            case found of
              None \<Rightarrow>
                let sig_blob_indices = sig_blob_indices @ [- 1] in
                if exit_early then Inr sig_blob_indices
                else match_loop env flags exit_early public_pair_blobs
                       signature_for_hash_type_f tmp_script rest sig_blob_indices sig_cache
            | Some idx \<Rightarrow>
                let sig_blob_indices = sig_blob_indices @ [int idx] in
                if 1 < length sig_blob_indices \<and> exit_early \<and>
                   last sig_blob_indices \<le> sig_blob_indices ! (length sig_blob_indices - 2)
                then Inr sig_blob_indices
                else match_loop env flags exit_early public_pair_blobs
                       signature_for_hash_type_f tmp_script rest sig_blob_indices sig_cache)
          else if exit_early then Inr sig_blob_indices
          else match_loop env flags exit_early public_pair_blobs signature_for_hash_type_f
                 tmp_script rest sig_blob_indices sig_cache)))"

definition sig_blob_matches ::
  "env \<Rightarrow> bytes list \<Rightarrow> bytes list \<Rightarrow> bytes \<Rightarrow> (nat \<Rightarrow> bytes \<Rightarrow> exn + int) \<Rightarrow> flags \<Rightarrow> bool
     \<Rightarrow> exn + int list" where
  "sig_blob_matches env sig_blobs public_pair_blobs tmp_script signature_for_hash_type_f flags
     exit_early =
     bind_e (drop_signatures sig_blobs tmp_script) (\<lambda>tmp_script.
     match_loop env flags exit_early public_pair_blobs signature_for_hash_type_f tmp_script
       sig_blobs [] Map.empty)"

text \<open>
  \<open>op_checkmultisig\<close>. \<open>pop_n n stack\<close> is the loop \<open>for i in range(n): xs.append(stack.pop())\<close>;
  \<open>range\<close> of a negative number is empty. \<open>strictly_increasing\<close> is the \<open>for ... else\<close> loop
  over adjacent indices. The message of the "too many signatures" error is built from the
  two counts in the source and is kept without them here. The result is the stack left and
  the key count returned.
\<close>

fun pop_n :: "nat \<Rightarrow> 'a list \<Rightarrow> exn + ('a list \<times> 'a list)" where
  "pop_n 0 stack = Inr ([], stack)"
| "pop_n (Suc n) stack =
     bind_e (pop stack) (\<lambda>(x, stack).
     bind_e (pop_n n stack) (\<lambda>(xs, stack). Inr (x # xs, stack)))"

fun strictly_increasing :: "int list \<Rightarrow> bool" where
  "strictly_increasing (x # y # rest) = (if y \<le> x then False else strictly_increasing (y # rest))"
| "strictly_increasing _ = True"

definition op_checkmultisig ::
  "env \<Rightarrow> bytes list \<Rightarrow> (nat \<Rightarrow> bytes \<Rightarrow> exn + int) \<Rightarrow> nat option \<Rightarrow> bytes \<Rightarrow> flags
     \<Rightarrow> exn + (bytes list \<times> int)" where
  "op_checkmultisig env stack signature_for_hash_type_f expected_hash_type tmp_script flags =
     (let require_minimal = VERIFY_MINIMALDATA flags in
      bind_e (pop stack) (\<lambda>(key_count_blob, stack).
      bind_e (int_from_script_bytes env key_count_blob require_minimal) (\<lambda>key_count.
      if key_count < 0 \<or> 20 < key_count
      then Inl (ScriptError ''key_count not in range 0 to 20'') else
      bind_e (pop_n (nat key_count) stack) (\<lambda>(public_pair_blobs, stack).
      bind_e (pop stack) (\<lambda>(signature_count_blob, stack).
      bind_e (int_from_script_bytes env signature_count_blob require_minimal)
        (\<lambda>signature_count.
      if key_count < signature_count then Inl (ScriptError ''too many signatures'') else
      bind_e (pop_n (nat signature_count) stack) (\<lambda>(sig_blobs, stack).
      bind_e (if VERIFY_NULLDUMMY flags then
                (if stack = [] then Inl IndexError
                 else if last stack \<noteq> []
                 then Inl (ScriptError ''bad dummy byte in checkmultisig'')
                 else Inr ())
              else Inr ()) (\<lambda>_.
      bind_e (pop stack) (\<lambda>(_, stack).
      bind_e (sig_blob_matches env sig_blobs public_pair_blobs tmp_script
                signature_for_hash_type_f flags True) (\<lambda>sig_blob_indices.
      let sig_ok =
            (if - 1 \<notin> set sig_blob_indices \<and> length sig_blob_indices = length sig_blobs \<and>
                strictly_increasing sig_blob_indices
             then VCH_TRUE else VCH_FALSE)
      in Inr (stack @ [sig_ok], key_count)))))))))))"

text \<open>
  One turn of the main loop of \<open>sig_blob_matches\<close>, up to the point where the list of
  indices is updated: the signature did not parse (\<open>Unparsed\<close>), no candidate public pair
  came back (\<open>NoCandidate\<close>), the key scan ran to its end (\<open>NoKey\<close>) or stopped at a key
  (\<open>Key idx\<close>). It is used to reason about \<open>match_loop\<close>, which lemma
  \<open>match_loop_Cons\<close> expresses through it.
\<close>

datatype outcome = Unparsed | NoCandidate | NoKey | Key nat

definition match_one ::
  "env \<Rightarrow> flags \<Rightarrow> bytes list \<Rightarrow> (nat \<Rightarrow> bytes \<Rightarrow> exn + int) \<Rightarrow> bytes
     \<Rightarrow> bytes \<Rightarrow> int list \<Rightarrow> (nat \<rightharpoonup> int) \<Rightarrow> exn + (outcome \<times> (nat \<rightharpoonup> int))" where
  "match_one env flags public_pair_blobs signature_for_hash_type_f tmp_script sig_blob
     sig_blob_indices sig_cache =
     (case parse_signature_blob env sig_blob flags of
        Inl e \<Rightarrow> if e = UnexpectedDER then Inr (Unparsed, sig_cache) else Inl e
      | Inr (sig_pair, signature_type) \<Rightarrow>
          bind_e (case sig_cache signature_type of
                    Some h \<Rightarrow> Inr (h, sig_cache)
                  | None \<Rightarrow>
                      bind_e (signature_for_hash_type_f signature_type tmp_script) (\<lambda>h.
                      Inr (h, sig_cache(signature_type \<mapsto> h)))) (\<lambda>(h, sig_cache).
          bind_e (case possible_public_pairs_for_signature env h sig_pair of
                    Inl e \<Rightarrow> if e = NoSuchPointError then Inr [] else Inl e
                  | Inr ppp \<Rightarrow> Inr ppp) (\<lambda>ppp.
          if 0 < length ppp then
            bind_e (scan_keys env (VERIFY_STRICTENC flags) ppp sig_blob_indices 0
                      public_pair_blobs) (\<lambda>found.
            case found of None \<Rightarrow> Inr (NoKey, sig_cache)
                        | Some idx \<Rightarrow> Inr (Key idx, sig_cache))
          else Inr (NoCandidate, sig_cache))))"

text \<open>
  The acceptance test of \<open>op_checkmultisig\<close> on the list of indices, for \<open>n\<close> signatures.
\<close>

definition accepted :: "int list \<Rightarrow> nat \<Rightarrow> bool" where
  "accepted idxs n \<longleftrightarrow> - 1 \<notin> set idxs \<and> length idxs = n \<and> strictly_increasing idxs"

section \<open>Multisig solver (ScriptMultisig.py)\<close>

text \<open>
  A \<open>ScriptMultisig\<close> object holds the number of signatures required and the public key
  blobs. \<open>encoding.hash160\<close>, \<open>_create_script_signature\<close> and \<open>_dummy_signature\<close> (of the
  base class \<open>ScriptType\<close>) are outside the source files and are parameters of \<open>solve\<close>;
  \<open>hash160_lookup\<close> is a partial map, absent when the keyword is not given.

  When \<open>existing_script\<close> is given and not empty, the first statement executed is
  \<open>tools.get_opcode(script, pc)\<close>. The name \<open>script\<close> is assigned further down in the
  function, which makes it a local variable, unbound at this point: Python raises
  UnboundLocalError.
\<close>

record script_multisig =
  ms_n :: nat
  ms_sec_keys :: "bytes list"

fun sign_with_keys ::
  "(bytes \<Rightarrow> bytes) \<Rightarrow> (int \<Rightarrow> int \<Rightarrow> nat \<Rightarrow> bytes) \<Rightarrow> (bytes \<rightharpoonup> int \<times> pair \<times> bool)
     \<Rightarrow> int \<Rightarrow> nat \<Rightarrow> nat \<Rightarrow> bytes list \<Rightarrow> bytes list \<Rightarrow> bytes list" where
  "sign_with_keys hash160 create_script_signature db sign_value signature_type n []
     existing_signatures = existing_signatures"
| "sign_with_keys hash160 create_script_signature db sign_value signature_type n
     (sec_key # rest) existing_signatures =
     (if n \<le> length existing_signatures then existing_signatures
      else
        (case db (hash160 sec_key) of
           None \<Rightarrow>
             sign_with_keys hash160 create_script_signature db sign_value signature_type n
               rest existing_signatures
         | Some (secret_exponent, public_pair, compressed) \<Rightarrow>
             sign_with_keys hash160 create_script_signature db sign_value signature_type n
               rest
               (existing_signatures @
                  [create_script_signature secret_exponent sign_value signature_type])))"

definition solve ::
  "(string \<rightharpoonup> nat) \<Rightarrow> (bytes \<Rightarrow> bytes) \<Rightarrow> (int \<Rightarrow> int \<Rightarrow> nat \<Rightarrow> bytes) \<Rightarrow> (nat \<Rightarrow> bytes)
     \<Rightarrow> script_multisig \<Rightarrow> (bytes \<rightharpoonup> int \<times> pair \<times> bool) option \<Rightarrow> int \<Rightarrow> nat
     \<Rightarrow> bytes option \<Rightarrow> exn + bytes" where
  "solve table hash160 create_script_signature dummy_signature self hash160_lookup sign_value
     signature_type existing_script =
     (case hash160_lookup of
        None \<Rightarrow> Inl (SolvingError ''missing hash160_lookup parameter'')
      | Some db \<Rightarrow>
          bind_e (case existing_script of
                    None \<Rightarrow> Inr []
                  | Some es \<Rightarrow> if es = [] then Inr [] else Inl UnboundLocalError)
            (\<lambda>existing_signatures.
          let existing_signatures =
                sign_with_keys hash160 create_script_signature db sign_value signature_type
                  (ms_n self) (ms_sec_keys self) existing_signatures;
              existing_signatures =
                existing_signatures @
                  replicate (ms_n self - length existing_signatures)
                    (dummy_signature signature_type)
          in compile table (''OP_0 '' @ join_space (map hexlify existing_signatures))))"

section \<open>A small environment for examples\<close>

text \<open>
  A toy instance of the collaborators, for evaluating the opcodes on concrete inputs: a
  signature body of two bytes decodes to the pair of its bytes, the DER body
  30 06 02 01 r 02 01 s decodes to \<open>(r, s)\<close>, the DER body 30 04 02 00 02 00, whose two
  integers have no bytes, makes the decoder raise ValueError (the decoder of the
  repository reads an integer with \<open>int(binascii.hexlify(numberbytes), 16)\<close>, which raises
  ValueError on the empty string), and any other body raises UnexpectedDER. A public key
  blob of one byte \<open>k\<close> decodes to the pair \<open>(k, 0)\<close>, a signature \<open>(r, s)\<close> is valid for
  the key \<open>(r, 0)\<close> alone, and a number is read from the first byte of its blob.
\<close>

definition example_env :: env where
  "example_env =
     \<lparr> sigdecode_der =
         (\<lambda>b. if length b = 2 then Inr (int (unat (b ! 0)), int (unat (b ! 1)))
              else if length b = 8 \<and> take 4 b = [0x30, 0x06, 0x02, 0x01] \<and>
                      b ! 5 = 0x02 \<and> b ! 6 = 0x01
              then Inr (int (unat (b ! 4)), int (unat (b ! 7)))
              else if b = [0x30, 0x04, 0x02, 0x00, 0x02, 0x00] then Inl ValueError
              else Inl UnexpectedDER),
       sec_to_public_pair = (\<lambda>b strict. if length b = 1 then Inr (int (unat (b ! 0)), 0)
                             else Inl EncodingError),
       ecdsa_verify = (\<lambda>public_pair h sig_pair. Inr (fst sig_pair = fst public_pair)),
       possible_public_pairs_for_signature =
         (\<lambda>h sig_pair. if fst sig_pair = 0 then Inl NoSuchPointError
                        else Inr [(fst sig_pair, 0)]),
       int_from_script_bytes = (\<lambda>b require_minimal. Inr (if b = [] then 0 else int (unat (b ! 0)))),
       low_s_constant = secp256k1_p \<rparr>"

definition no_flags :: flags where
  "no_flags = \<lparr> VERIFY_STRICTENC = False, VERIFY_DERSIG = False, VERIFY_LOW_S = False,
                 VERIFY_NULLDUMMY = False, VERIFY_MINIMALDATA = False \<rparr>"

text \<open>
  The hash160 of the standard-output example, a toy signature maker (a well-formed
  9-byte blob that holds the secret exponent, the value signed and the hash type), and a
  2-of-3 multisig over three toy keys.
\<close>

definition example_hash160 :: bytes where
  "example_hash160 = [0x74, 0x5e, 0x5b, 0x81, 0xfd, 0x30, 0xca, 0x1e, 0x90, 0x31,
                      0x1b, 0x01, 0x2b, 0xad, 0xab, 0xaa, 0x44, 0x11, 0xae, 0x1a]"

definition example_signature :: "int \<Rightarrow> int \<Rightarrow> nat \<Rightarrow> bytes" where
  "example_signature secret_exponent sign_value signature_type =
     [0x30, 0x06, 0x02, 0x01, of_int secret_exponent, 0x02, 0x01, of_int sign_value,
      of_nat signature_type]"

definition example_multisig :: script_multisig where
  "example_multisig = \<lparr> ms_n = 2, ms_sec_keys = [[0x02, 0x0a], [0x02, 0x0b], [0x02, 0x0c]] \<rparr>"

section \<open>Properties of the signature codec\<close>

subsection \<open>The DER layout validator\<close>

lemma band128: "(b::nat) < 256 \<Longrightarrow> (b AND 0x80 = 0) = (b < 128)"
proof -
  assume b: "b < 256"
  have "(b AND 2 ^ 7 = 0) = (\<not> bit b 7)" by (rule and_exp_eq_0_iff_not_bit)
  moreover have "bit b 7 = odd (b div 2 ^ 7)" by (rule bit_iff_odd)
  moreover have "odd (b div 128) = (128 \<le> b)"
  proof (cases "128 \<le> b")
    case True
    then have "b div 128 = 1" using b by (simp add: div_nat_eqI)
    then show ?thesis using True by simp
  next
    case False
    then show ?thesis by simp
  qed
  ultimately show ?thesis by auto
qed

lemma unat_byte_lt: "unat (w :: byte) < 256"
  using unsigned_less [of w] by simp

lemma byte_hi [simp]: "(0 < unat (w :: byte) AND 128) = (128 \<le> unat w)"
  using band128 [OF unat_byte_lt, of w] by auto

lemma byte_hi' [simp]: "(unat (w :: byte) AND 128 = 0) = (unat w < 128)"
  using band128 [OF unat_byte_lt, of w] by auto

lemma cvs_idx:
  "check_valid_signature sig = Inr () \<longleftrightarrow>
     9 \<le> length sig \<and> length sig \<le> 73 \<and> unat (sig ! 0) = 0x30 \<and>
     unat (sig ! 1) = length sig - 3 \<and>
     5 + unat (sig ! 3) < length sig \<and>
     unat (sig ! 3) + unat (sig ! (5 + unat (sig ! 3))) + 7 = length sig \<and>
     unat (sig ! 2) = 2 \<and> unat (sig ! 3) \<noteq> 0 \<and> unat (sig ! 4) < 128 \<and>
     \<not> (1 < unat (sig ! 3) \<and> unat (sig ! 4) = 0 \<and> unat (sig ! 5) < 128) \<and>
     unat (sig ! (unat (sig ! 3) + 4)) = 2 \<and> unat (sig ! (5 + unat (sig ! 3))) \<noteq> 0 \<and>
     unat (sig ! (unat (sig ! 3) + 6)) < 128 \<and>
     \<not> (1 < unat (sig ! (5 + unat (sig ! 3))) \<and> unat (sig ! (unat (sig ! 3) + 6)) = 0 \<and>
        unat (sig ! (unat (sig ! 3) + 7)) < 128)"
  unfolding check_valid_signature_def superfluous_zero_def byte_at_def Let_def
  by (auto simp: add.commute split: if_splits)

lemma byte_eq_of_nat: "unat (w :: byte) = n \<Longrightarrow> w = of_nat n"
  by auto

lemma unat_of_nat_byte: "n < 256 \<Longrightarrow> unat (of_nat n :: byte) = n"
  by (simp add: unat_of_nat)

lemma drop_two: "Suc n < length xs \<Longrightarrow> drop n xs = xs ! n # xs ! Suc n # drop (Suc (Suc n)) xs"
  by (simp add: Cons_nth_drop_Suc Suc_lessD)

lemma split_layout:
  assumes "9 \<le> length sig" "5 + rl < length sig" "rl + sl + 7 = length sig"
  shows "sig = [sig ! 0, sig ! 1, sig ! 2, sig ! 3] @ take rl (drop 4 sig) @
               [sig ! (rl + 4), sig ! (5 + rl)] @ take sl (drop (6 + rl) sig) @
               [sig ! (length sig - 1)]"
proof -
  have a: "sig = [sig ! 0, sig ! 1, sig ! 2, sig ! 3] @ drop 4 sig"
    using assms(1) drop_two [of 0 sig] drop_two [of 2 sig] by (simp add: numeral_eq_Suc)
  have b: "drop 4 sig = take rl (drop 4 sig) @ drop (4 + rl) sig"
    by (metis append_take_drop_id drop_drop add.commute)
  have c: "drop (4 + rl) sig = [sig ! (rl + 4), sig ! (5 + rl)] @ drop (6 + rl) sig"
    using assms(2) drop_two [of "4 + rl" sig] by (simp add: add.commute numeral_eq_Suc)
  have d: "drop (6 + rl) sig = take sl (drop (6 + rl) sig) @ drop (6 + rl + sl) sig"
    by (metis append_take_drop_id drop_drop add.commute)
  have "6 + rl + sl = length sig - 1" using assms(3) by simp
  moreover have "drop (length sig - 1) sig = [sig ! (length sig - 1)]"
    using assms(1) Cons_nth_drop_Suc [of "length sig - 1" sig] by simp
  ultimately have e: "drop (6 + rl + sl) sig = [sig ! (length sig - 1)]" by simp
  show ?thesis using a b c d e by (metis append.assoc)
qed

lemma hd_take_drop: "0 < n \<Longrightarrow> k < length xs \<Longrightarrow> hd (take n (drop k xs)) = xs ! k"
  by (cases n) (simp_all add: hd_drop_conv_nth)

lemma nth1_take_drop: "1 < n \<Longrightarrow> Suc k < length xs \<Longrightarrow> take n (drop k xs) ! 1 = xs ! Suc k"
  by simp

lemma cvs_imp_layout:
  assumes "check_valid_signature sig = Inr ()"
  shows "der_layout sig"
proof -
  define rl where "rl = unat (sig ! 3)"
  define sl where "sl = unat (sig ! (5 + rl))"
  define r where "r = take rl (drop 4 sig)"
  define s where "s = take sl (drop (6 + rl) sig)"
  note c = assms [unfolded cvs_idx, folded rl_def, folded sl_def]
  from c have len: "9 \<le> length sig" "length sig \<le> 73" "5 + rl < length sig"
    "rl + sl + 7 = length sig" by simp_all
  have lr: "length r = rl" using len by (simp add: r_def)
  have ls: "length s = sl" using len by (simp add: s_def)
  have eq: "sig = [sig ! 0, sig ! 1, sig ! 2, sig ! 3] @ r @
               [sig ! (rl + 4), sig ! (5 + rl)] @ s @ [sig ! (length sig - 1)]"
    unfolding r_def s_def using split_layout [OF len(1,3,4)] .
  have b0: "sig ! 0 = 0x30" using c byte_eq_of_nat [of "sig ! 0" 48] by simp
  have b1: "sig ! 1 = of_nat (length sig - 3)" using c byte_eq_of_nat by blast
  have b2: "sig ! 2 = 2" using c byte_eq_of_nat [of "sig ! 2" 2] by simp
  have b3: "sig ! 3 = of_nat (length r)" using lr rl_def by simp
  have b4: "sig ! (rl + 4) = 2" using c byte_eq_of_nat [of "sig ! (rl + 4)" 2] by simp
  have b5: "sig ! (5 + rl) = of_nat (length s)" using ls sl_def by simp
  have hr: "hd r = sig ! 4" using c len unfolding r_def by (intro hd_take_drop) simp_all
  have r1: "1 < rl \<Longrightarrow> r ! 1 = sig ! 5"
    using len unfolding r_def by (simp)
  have "0 < sl" "6 + rl < length sig" using c len by simp_all
  then have "hd s = sig ! (6 + rl)" unfolding s_def by (rule hd_take_drop)
  then have hs: "hd s = sig ! (rl + 6)" by (simp add: add.commute)
  have s1: "1 < sl \<Longrightarrow> s ! 1 = sig ! (rl + 7)"
    using len unfolding s_def by (simp add: add.commute)
  have mr: "minimal_nonneg r"
    unfolding minimal_nonneg_def using c lr hr r1 by auto
  have ms: "minimal_nonneg s"
    unfolding minimal_nonneg_def using c ls hs s1 by auto
  show ?thesis unfolding der_layout_def using len(1,2) mr ms eq b0 b1 b2 b3 b4 b5
    by metis
qed

lemma layout_imp_cvs:
  assumes "der_layout sig"
  shows "check_valid_signature sig = Inr ()"
proof -
  from assms obtain r s ht where
    len: "9 \<le> length sig" "length sig \<le> 73" and
    eq: "sig = [0x30, of_nat (length sig - 3), 0x02, of_nat (length r)] @ r @
                      [0x02, of_nat (length s)] @ s @ [ht]" and
    mr: "minimal_nonneg r" and ms: "minimal_nonneg s"
    unfolding der_layout_def by blast
  define n where "n = length sig"
  have n: "n = 7 + length r + length s" unfolding n_def by (subst eq) simp
  have n73: "n \<le> 73" "9 \<le> n" using len n_def by simp_all
  have lr: "unat (of_nat (length r) :: byte) = length r"
    using n n73 by (intro unat_of_nat_byte) simp
  have ls: "unat (of_nat (length s) :: byte) = length s"
    using n n73 by (intro unat_of_nat_byte) simp
  have ln: "unat (of_nat (n - 3) :: byte) = n - 3"
    using n73 by (intro unat_of_nat_byte) simp
  have rne: "r \<noteq> []" and sne: "s \<noteq> []" using mr ms by (simp_all add: minimal_nonneg_def)
  have i0: "sig ! 0 = 0x30" by (subst eq) simp
  have i1: "sig ! 1 = of_nat (n - 3)" unfolding n_def by (subst eq) simp
  have i2: "sig ! 2 = 2" by (subst eq) simp
  have i3: "sig ! 3 = of_nat (length r)" by (subst eq) (simp add: numeral_eq_Suc)
  have i4: "sig ! 4 = hd r" using rne by (subst eq) (simp add: numeral_eq_Suc nth_append hd_conv_nth)
  have i5: "1 < length r \<Longrightarrow> sig ! 5 = r ! 1"
    by (subst eq) (simp add: numeral_eq_Suc nth_append)
  have t: "sig ! (length r + 4) = 2"
    by (subst eq) (simp add: numeral_eq_Suc nth_append)
  have sl: "sig ! (5 + length r) = of_nat (length s)"
    by (subst eq) (simp add: numeral_eq_Suc nth_append)
  have i6: "sig ! (length r + 6) = hd s" using sne
    by (subst eq) (simp add: numeral_eq_Suc nth_append hd_conv_nth)
  have i7: "1 < length s \<Longrightarrow> sig ! (length r + 7) = s ! 1"
    by (subst eq) (simp add: numeral_eq_Suc nth_append)
  show ?thesis
    unfolding cvs_idx n_def [symmetric] i0 i1 i2 i3 lr sl ls ln t i4 i6
    using n n73 mr ms i5 i7 rne sne
    by (auto simp: minimal_nonneg_def unsigned_eq_0_iff)
qed

text \<open>
  Claim C6. \<open>check_valid_signature\<close> accepts a blob exactly when it has the DER layout:
  between 9 and 73 bytes, the SEQUENCE tag 0x30, a declared length of the total length
  minus 3, the INTEGER tag 0x02 before r and before s, and r and s non-empty, with the
  high bit of their first byte clear and no superfluous leading zero byte. Every blob of
  8 bytes is rejected for its size, and the 9-byte blob with r = 0x01 and s = 0x01 is
  accepted, whatever its hash-type byte.
\<close>

theorem check_valid_signature_layout:
  "(check_valid_signature sig = Inr () \<longleftrightarrow> der_layout sig) \<and>
   (length sig8 = 8 \<longrightarrow> check_valid_signature sig8 = Inl (ScriptError ''bad signature size'')) \<and>
   check_valid_signature [0x30, 6, 2, 1, 1, 2, 1, 1, ht] = Inr ()"
proof (intro conjI impI)
  show "check_valid_signature sig = Inr () \<longleftrightarrow> der_layout sig"
    using cvs_imp_layout layout_imp_cvs by blast
  show "check_valid_signature sig8 = Inl (ScriptError ''bad signature size'')"
    if "length sig8 = 8"
    using that by (simp add: check_valid_signature_def)
  show "check_valid_signature [0x30, 6, 2, 1, 1, 2, 1, 1, ht] = Inr ()"
    by (simp add: cvs_idx)
qed

theorem check_valid_signature_layout_witness:
  "der_layout [0x30, 6, 2, 1, 1, 2, 1, 1, 1] \<and>
   check_valid_signature [0x30, 5, 2, 1, 1, 2, 1, 1] = Inl (ScriptError ''bad signature size'')"
  using check_valid_signature_layout
    [of "[0x30, 6, 2, 1, 1, 2, 1, 1, 1]" "[0x30, 5, 2, 1, 1, 2, 1, 1]" 1]
  by auto

subsection \<open>The low-S check\<close>

lemma check_low_der_signature_iff:
  "check_low_der_signature p (r, s) = Inl (ScriptError ''signature has high S value'')
     \<longleftrightarrow> p - s < s"
  by (simp add: check_low_der_signature_def)

lemma check_low_der_signature_total:
  "check_low_der_signature p (r, s) = Inr () \<longleftrightarrow> \<not> p - s < s"
  by (simp add: check_low_der_signature_def)

text \<open>
  Claim C1. With the group order \<open>secp256k1_r\<close>, the value \<open>s = (secp256k1_r + 1) div 2\<close>
  exceeds \<open>secp256k1_r - s\<close>, so it lies in the upper half of the group order; the check,
  which compares against the field prime \<open>secp256k1_p\<close>, lets it pass. The two values the
  claim names behave as it says: \<open>s = secp256k1_r - 1\<close> fails and \<open>s = 1\<close> passes.
\<close>

theorem check_low_der_signature_field_prime:
  "secp256k1_r - (secp256k1_r + 1) div 2 < (secp256k1_r + 1) div 2 \<and>
   check_low_der_signature secp256k1_p (r, (secp256k1_r + 1) div 2) = Inr () \<and>
   check_low_der_signature secp256k1_p (r, secp256k1_r - 1)
     = Inl (ScriptError ''signature has high S value'') \<and>
   check_low_der_signature secp256k1_p (r, 1) = Inr ()"
  by (simp add: check_low_der_signature_def secp256k1_p_def secp256k1_r_def)

section \<open>Properties of the opcode reader and the push-data encoder\<close>

lemmas opcode_defs = OP_0_def OP_PUSHDATA1_def OP_PUSHDATA2_def OP_PUSHDATA4_def

lemma push_data_cases:
  "push_data t =
     (if t = [] then Inr [0x00]
      else if length t = 1 \<and> unat (hd t) = 0 then Inr [0x00]
      else if length t = 1 \<and> unat (hd t) \<le> 16 then Inr [of_nat (0x50 + unat (hd t))]
      else if length t \<le> 75 then Inr (of_nat (length t) # t)
      else if length t \<le> 255 then Inr (0x4c # of_nat (length t) # t)
      else if length t \<le> 65535
        then Inr (0x4d # of_nat (length t mod 256) # of_nat (length t div 256) # t)
      else if length t < 4294967296
        then Inr (0x4e # of_nat (length t mod 256) # of_nat (length t div 256 mod 256) #
                  of_nat (length t div 65536 mod 256) # of_nat (length t div 16777216) # t)
      else Inl StructError)"
  by (cases t)
     (auto simp: push_data_def bytes_from_int_def int_to_bytes_def pack_H_def pack_L_def
        small_int_opcode_def opcode_defs)

lemma get_opcode_data_within:
  assumes "get_opcode script pc = Inr (opcode, Some d, pc')" "d \<noteq> []"
  shows "pc' \<le> length script \<and> d = py_slice script (pc' - length d) (length d)"
  using assms
  by (auto simp: get_opcode_def py_slice_def Let_def opcode_defs eval_nat_numeral
      split: list.splits if_splits prod.splits)

text \<open>
  Claim C5. A PUSHDATA opcode whose length prefix is cut off by the end of the script does
  not make \<open>get_opcode\<close> fail: the missing prefix bytes read as zero, the call returns
  empty data and a cursor past the end of the script. Shown for PUSHDATA1 with no prefix
  byte, PUSHDATA2 with one of two and PUSHDATA4 with two of four.
\<close>

theorem get_opcode_truncated_prefix:
  "get_opcode [0x4c] 0 = Inr (0x4c, Some [], 2) \<and>
   get_opcode [0x4d, 0x00] 0 = Inr (0x4d, Some [], 3) \<and>
   get_opcode [0x4e, 0x00, 0x00] 0 = Inr (0x4e, Some [], 5)"
  by (simp add: get_opcode_def py_slice_def opcode_defs)

text \<open>
  Claim C7. The single byte 0x00 is written as the one-byte opcode OP_0, which the opcode
  reader decodes as a push of the empty blob, not as the literal push 0x01 0x00. The single
  byte 0x05 is written as the one-byte opcode 0x55.
\<close>

theorem push_data_zero_byte:
  "bin_script [[0x00]] = Inr [0x00] \<and> get_opcode [0x00] 0 = Inr (0, Some [], 1) \<and>
   bin_script [[0x05]] = Inr [0x55]"
  by (simp add: bin_script_def push_data_cases get_opcode_def py_slice_def opcode_defs)

section \<open>Properties of the single-signature opcode\<close>

lemma pop_snoc [simp]: "pop (xs @ [x]) = Inr (x, xs)"
  by (simp add: pop_def)

lemma pop_snoc2 [simp]: "pop (xs @ [y, x]) = Inr (x, xs @ [y])"
  using pop_snoc [of "xs @ [y]" x] by simp

lemma bind_e_ScriptError:
  assumes "\<And>e. m = Inl e \<Longrightarrow> \<exists>msg. e = ScriptError msg"
    and "\<And>x e. f x = Inl e \<Longrightarrow> \<exists>msg. e = ScriptError msg"
    and "bind_e m f = Inl e"
  shows "\<exists>msg. e = ScriptError msg"
  using assms by (cases m) auto










lemma op_checksig_parse_error:
  assumes "VERIFY_STRICTENC flags \<longrightarrow> check_public_key_encoding pair_blob = Inr ()"
    and "parse_signature_blob env sig_blob flags = Inl e"
  shows "op_checksig env (stack @ [sig_blob, pair_blob]) f eht script flags
     = (if e = UnexpectedDER \<or> e = ValueError \<or> e = EncodingError
        then Inr (stack @ [VCH_FALSE]) else Inl e)"
  using assms by (auto simp: op_checksig_def caught_def)




section \<open>Properties of the multisig matcher and opcode\<close>

lemma bind_e_cong_l: "m = m' \<Longrightarrow> bind_e m f = bind_e m' f" by simp

lemma bind_e_assoc: "bind_e (bind_e m f) g = bind_e m (\<lambda>x. bind_e (f x) g)"
  by (cases m) auto

lemma match_loop_Cons:
  "match_loop env flags ee keys f script (sig_blob # rest) indices cache =
     bind_e (match_one env flags keys f script sig_blob indices cache) (\<lambda>(out, cache').
       case out of
         Unparsed \<Rightarrow> if ee then Inr (indices @ [- 1])
                     else match_loop env flags ee keys f script rest (indices @ [- 1]) cache'
       | NoKey \<Rightarrow> if ee then Inr (indices @ [- 1])
                  else match_loop env flags ee keys f script rest (indices @ [- 1]) cache'
       | NoCandidate \<Rightarrow> if ee then Inr indices
                        else match_loop env flags ee keys f script rest indices cache'
       | Key idx \<Rightarrow>
           if indices \<noteq> [] \<and> ee \<and> int idx \<le> last indices then Inr (indices @ [int idx])
           else match_loop env flags ee keys f script rest (indices @ [int idx]) cache')"
proof (cases "parse_signature_blob env sig_blob flags")
  case (Inl e)
  then show ?thesis by (simp add: match_one_def Let_def)
next
  case (Inr p)
  obtain sig_pair t where p: "p = (sig_pair, t)" by (cases p)
  have idx: "(indices @ [x]) ! (length indices - Suc 0) = last indices"
    if "indices \<noteq> []" for x :: int
    using that by (simp add: nth_append last_conv_nth)
  show ?thesis
    unfolding match_loop.simps match_one_def Inr p
    by (auto simp: Let_def bind_e_assoc idx split: sum.splits option.splits prod.splits
        intro!: arg_cong2 [where f = bind_e] ext)
qed


declare match_loop.simps(2) [simp del]

lemma bind_e_Inr_iff: "bind_e m f = Inr r \<longleftrightarrow> (\<exists>x. m = Inr x \<and> f x = Inr r)"
  by (cases m) auto

lemma bind_e_InrE:
  assumes "bind_e m f = Inr r"
  obtains x where "m = Inr x" "f x = Inr r"
  using assms by (cases m) auto

lemma scan_keys_fresh:
  "scan_keys env strict ppp indices idx keys = Inr (Some j) \<Longrightarrow> int j \<notin> set indices"
proof (induction keys arbitrary: idx)
  case Nil
  then show ?case by simp
next
  case (Cons ppb rest)
  then show ?case
    by (auto split: if_splits sum.splits simp: bind_e_Inr_iff)
qed

lemma match_one_Key_fresh:
  assumes "match_one env flags keys f script sig_blob indices cache = Inr (Key j, cache')"
  shows "int j \<notin> set indices"
proof -
  from assms obtain sp t where p: "parse_signature_blob env sig_blob flags = Inr (sp, t)"
    unfolding match_one_def
    by (cases "parse_signature_blob env sig_blob flags") (auto split: if_splits)
  from assms [unfolded match_one_def p] obtain ppp where
    "scan_keys env (VERIFY_STRICTENC flags) ppp indices 0 keys = Inr (Some j)"
    by (auto elim!: bind_e_InrE split: if_splits option.splits)
  then show ?thesis by (rule scan_keys_fresh)
qed

lemma match_loop_distinct:
  assumes "distinct (filter (\<lambda>i. i \<noteq> - 1) indices)"
    and "match_loop env flags ee keys f script sigs indices cache = Inr r"
  shows "distinct (filter (\<lambda>i. i \<noteq> - 1) r)"
  using assms
proof (induction sigs arbitrary: indices cache)
  case Nil
  then show ?case by simp
next
  case (Cons sig_blob rest)
  from Cons.prems(2) obtain out cache' where
    one: "match_one env flags keys f script sig_blob indices cache = Inr (out, cache')"
    unfolding match_loop_Cons bind_e_Inr_iff by auto
  note run = Cons.prems(2) [unfolded match_loop_Cons one, simplified]
  show ?case
  proof (cases out)
    case Unparsed
    with run Cons.prems(1) Cons.IH [of "indices @ [- 1]" cache'] show ?thesis
      by (auto split: if_splits)
  next
    case NoCandidate
    with run Cons.prems(1) Cons.IH [of indices cache'] show ?thesis
      by (auto split: if_splits)
  next
    case NoKey
    with run Cons.prems(1) Cons.IH [of "indices @ [- 1]" cache'] show ?thesis
      by (auto split: if_splits)
  next
    case (Key j)
    with one have "int j \<notin> set indices" using match_one_Key_fresh by blast
    then have "distinct (filter (\<lambda>i. i \<noteq> - 1) (indices @ [int j]))"
      using Cons.prems(1) by simp
    with run Key Cons.IH [of "indices @ [int j]" cache'] show ?thesis
      by (auto split: if_splits)
  qed
qed

lemmas example_defs = example_env_def no_flags_def parse_signature_blob_def
  sig_blob_matches_def match_loop.simps bin_script_def push_data_cases delete_subscript_def

text \<open>
  Claim C10. Whatever the signature blobs, the public key blobs, the script, the digest
  provider and the flags, and in both modes, the list of indices that \<open>sig_blob_matches\<close>
  returns holds no public key index twice: its entries other than the sentinel -1 are
  pairwise distinct.
\<close>

theorem sig_blob_matches_distinct:
  "sig_blob_matches env sig_blobs public_pair_blobs tmp_script f flags exit_early = Inr r
     \<Longrightarrow> distinct (filter (\<lambda>i. i \<noteq> - 1) r)"
  unfolding sig_blob_matches_def bind_e_Inr_iff
  using match_loop_distinct [of "[]"] by auto

theorem sig_blob_matches_distinct_witness:
  "sig_blob_matches example_env [[1, 9, 1], [1, 9, 1]] [[1], [1], [3]] [] (\<lambda>t s. Inr 0)
     no_flags False = Inr [0, 1] \<and>
   distinct (filter (\<lambda>i. i \<noteq> - 1) [0, 1 :: int])"
proof -
  have e: "sig_blob_matches example_env [[1, 9, 1], [1, 9, 1]] [[1], [1], [3]] []
      (\<lambda>t s. Inr 0) no_flags False = Inr [0, 1]"
    by (simp add: example_defs)
  from sig_blob_matches_distinct [OF e] e show ?thesis by simp
qed

lemma strictly_increasing_sorted: "strictly_increasing xs = sorted_wrt (<) xs"
proof (induction xs rule: strictly_increasing.induct)
  case (1 x y rest)
  then show ?case by (cases "y \<le> x") force+
qed simp_all

lemma strictly_increasing_snoc:
  "strictly_increasing (xs @ [x]) \<longleftrightarrow> strictly_increasing xs \<and> (xs \<noteq> [] \<longrightarrow> last xs < x)"
proof (cases "xs = []")
  case True
  then show ?thesis by simp
next
  case False
  then obtain ys y where xs: "xs = ys @ [y]" by (metis append_butlast_last_id)
  show ?thesis
    unfolding strictly_increasing_sorted xs
    by (auto simp: sorted_wrt_append)
qed

lemma strictly_increasing_prefix:
  "strictly_increasing (xs @ ys) \<Longrightarrow> strictly_increasing xs"
  by (simp add: strictly_increasing_sorted sorted_wrt_append)

lemma match_loop_extends:
  assumes "match_loop env flags ee keys f script sigs indices cache = Inr r"
  shows "\<exists>ys. r = indices @ ys \<and> length ys \<le> length sigs"
  using assms
proof (induction sigs arbitrary: indices cache)
  case Nil
  then show ?case by simp
next
  case (Cons sig_blob rest)
  from Cons.prems obtain out cache' where
    one: "match_one env flags keys f script sig_blob indices cache = Inr (out, cache')"
    unfolding match_loop_Cons bind_e_Inr_iff by auto
  note run = Cons.prems [unfolded match_loop_Cons one, simplified]
  show ?case
  proof (cases out)
    case Unparsed
    with run Cons.IH [of "indices @ [- 1]" cache'] show ?thesis
      by (auto split: if_splits)
  next
    case NoCandidate
    with run Cons.IH [of indices cache'] show ?thesis
      by (auto split: if_splits)
  next
    case NoKey
    with run Cons.IH [of "indices @ [- 1]" cache'] show ?thesis
      by (auto split: if_splits)
  next
    case (Key j)
    with run Cons.IH [of "indices @ [int j]" cache'] show ?thesis
      by (auto split: if_splits)
  qed
qed

lemma match_loop_early_full:
  assumes "accepted r (length indices + length sigs)"
  shows "match_loop env flags True keys f script sigs indices cache = Inr r
     \<longleftrightarrow> match_loop env flags False keys f script sigs indices cache = Inr r"
  using assms
proof (induction sigs arbitrary: indices cache)
  case Nil
  then show ?case by simp
next
  case (Cons sig_blob rest)
  note acc = Cons.prems [unfolded accepted_def]
  show ?case
  proof (cases "match_one env flags keys f script sig_blob indices cache")
    case (Inl e)
    then show ?thesis by (simp add: match_loop_Cons)
  next
    case (Inr p)
    obtain out cache' where p: "p = (out, cache')" by (cases p)
    note one = Inr [unfolded p]
    have ext: "\<exists>ys. r = idxs @ ys \<and> length ys \<le> length rest"
      if "match_loop env flags ee keys f script rest idxs cache' = Inr r" for ee idxs
      using that by (rule match_loop_extends)
    show ?thesis
    proof (cases out)
      case Unparsed
      have "match_loop env flags ee keys f script rest (indices @ [- 1]) cache' \<noteq> Inr r" for ee
        using ext [of ee "indices @ [- 1]"] acc by auto
      moreover have "r \<noteq> indices @ [- 1]" using acc by auto
      ultimately show ?thesis by (simp add: match_loop_Cons one Unparsed)
    next
      case NoKey
      have "match_loop env flags ee keys f script rest (indices @ [- 1]) cache' \<noteq> Inr r" for ee
        using ext [of ee "indices @ [- 1]"] acc by auto
      moreover have "r \<noteq> indices @ [- 1]" using acc by auto
      ultimately show ?thesis by (simp add: match_loop_Cons one NoKey)
    next
      case NoCandidate
      have "match_loop env flags ee keys f script rest indices cache' \<noteq> Inr r" for ee
        using ext [of ee indices] acc by auto
      moreover have "r \<noteq> indices" using acc by auto
      ultimately show ?thesis by (simp add: match_loop_Cons one NoCandidate)
    next
      case (Key j)
      have ih: "match_loop env flags True keys f script rest (indices @ [int j]) cache' = Inr r
        \<longleftrightarrow> match_loop env flags False keys f script rest (indices @ [int j]) cache' = Inr r"
        using Cons.IH [of "indices @ [int j]" cache'] Cons.prems by simp
      show ?thesis
      proof (cases "indices \<noteq> [] \<and> int j \<le> last indices")
        case True
        have "\<not> strictly_increasing (indices @ [int j])"
          using True by (simp add: strictly_increasing_snoc)
        then have no: "\<not> strictly_increasing ((indices @ [int j]) @ ys)" for ys
          using strictly_increasing_prefix by blast
        have "match_loop env flags ee keys f script rest (indices @ [int j]) cache' \<noteq> Inr r" for ee
          using ext [of ee "indices @ [int j]"] acc no by auto
        moreover have "r \<noteq> indices @ [int j]" using acc no [of "[]"] by auto
        ultimately show ?thesis using True by (simp add: match_loop_Cons one Key)
      next
        case False
        then show ?thesis using ih by (auto simp: match_loop_Cons one Key)
      qed
    qed
  qed
qed


lemma pop_n_rev: "pop_n (length xs) (st @ rev xs) = Inr (xs, st)"
proof (induction xs arbitrary: st)
  case Nil
  then show ?case by simp
next
  case (Cons x xs)
  have "pop (st @ rev (x # xs)) = Inr (x, st @ rev xs)"
    using pop_snoc [of "st @ rev xs" x] by simp
  then show ?case using Cons.IH [of st] by simp
qed

lemma op_checkmultisig_stack:
  assumes kc: "int_from_script_bytes env kc (VERIFY_MINIMALDATA flags) = Inr (int (length keys))"
    and sc: "int_from_script_bytes env sc (VERIFY_MINIMALDATA flags) = Inr (int (length sigs))"
    and le: "length sigs \<le> length keys" "length keys \<le> 20"
    and nd: "VERIFY_NULLDUMMY flags \<longrightarrow> dummy = []"
  shows "op_checkmultisig env (rest @ [dummy] @ rev sigs @ [sc] @ rev keys @ [kc]) f eht script flags
     = bind_e (sig_blob_matches env sigs keys script f flags True) (\<lambda>idxs.
         Inr (rest @ [if accepted idxs (length sigs) then VCH_TRUE else VCH_FALSE],
              int (length keys)))"
proof -
  have 1: "pop (rest @ [dummy] @ rev sigs @ [sc] @ rev keys @ [kc])
      = Inr (kc, (rest @ [dummy] @ rev sigs @ [sc]) @ rev keys)"
    using pop_snoc [of "rest @ [dummy] @ rev sigs @ [sc] @ rev keys" kc] by simp
  have 2: "pop_n (length keys) ((rest @ [dummy] @ rev sigs @ [sc]) @ rev keys)
      = Inr (keys, rest @ [dummy] @ rev sigs @ [sc])"
    by (rule pop_n_rev)
  have 3: "pop (rest @ [dummy] @ rev sigs @ [sc]) = Inr (sc, (rest @ [dummy]) @ rev sigs)"
    using pop_snoc [of "rest @ [dummy] @ rev sigs" sc] by simp
  have 4: "pop_n (length sigs) ((rest @ [dummy]) @ rev sigs) = Inr (sigs, rest @ [dummy])"
    by (rule pop_n_rev)
  have 5: "pop (rest @ [dummy]) = Inr (dummy, rest)" by simp
  have c1: "\<not> (int (length keys) < 0 \<or> 20 < int (length keys))" using le by simp
  have c2: "\<not> int (length keys) < int (length sigs)" using le by simp
  have n: "nat (int (length keys)) = length keys" "nat (int (length sigs)) = length sigs"
    by simp_all
  have c3: "(if VERIFY_NULLDUMMY flags then
                (if rest @ [dummy] = [] then Inl IndexError
                 else if last (rest @ [dummy]) \<noteq> []
                 then Inl (ScriptError ''bad dummy byte in checkmultisig'')
                 else Inr ())
              else Inr ()) = (Inr () :: exn + unit)"
    using nd by simp
  show ?thesis
    by (simp only: op_checkmultisig_def Let_def 1 bind_e.simps prod.case kc c1 if_False n 2 3
        sc c2 4 c3 5 accepted_def)
qed

lemma sig_blob_matches_early_full:
  assumes "accepted r (length sigs)"
  shows "sig_blob_matches env sigs keys script f flags True = Inr r
     \<longleftrightarrow> sig_blob_matches env sigs keys script f flags False = Inr r"
proof (cases "drop_signatures sigs script")
  case (Inl e)
  then show ?thesis by (simp add: sig_blob_matches_def)
next
  case (Inr s)
  show ?thesis
    unfolding sig_blob_matches_def Inr
    using match_loop_early_full [of r "[]" sigs env flags keys f s Map.empty] assms by simp
qed

text \<open>
  The acceptance rule of \<open>op_checkmultisig\<close>. On a stack that holds, from the top, the key
  count, the public key blobs, the signature count, the signature blobs and the dummy
  element, with counts in range, the opcode pushes true exactly when the matching run to
  its end (not in early exit mode) records a key index for every signature blob, none of
  them the no-match sentinel, and the indices are strictly increasing. The lists \<open>sigs\<close>
  and \<open>keys\<close> are in the order the opcode pops them, which is the reverse of the script
  order for both. In the example the keys are K1, K2, K3: signatures valid for K2 then K1
  give false, signatures valid for K1 then K2 give true.
\<close>

lemma op_checkmultisig_true_iff:
  assumes "int_from_script_bytes env kc (VERIFY_MINIMALDATA flags) = Inr (int (length keys))"
    and "int_from_script_bytes env sc (VERIFY_MINIMALDATA flags) = Inr (int (length sigs))"
    and "length sigs \<le> length keys" "length keys \<le> 20"
    and "VERIFY_NULLDUMMY flags \<longrightarrow> dummy = []"
  shows "op_checkmultisig env (rest @ [dummy] @ rev sigs @ [sc] @ rev keys @ [kc]) f eht script
            flags = Inr (rest @ [VCH_TRUE], int (length keys))
          \<longleftrightarrow> (\<exists>idxs. sig_blob_matches env sigs keys script f flags False = Inr idxs \<and>
                  - 1 \<notin> set idxs \<and> length idxs = length sigs \<and> sorted_wrt (<) idxs)"
proof -
  note st = op_checkmultisig_stack [OF assms, of rest f eht script]
  have tf: "VCH_TRUE \<noteq> VCH_FALSE" by (simp add: VCH_TRUE_def VCH_FALSE_def)
  have "op_checkmultisig env (rest @ [dummy] @ rev sigs @ [sc] @ rev keys @ [kc]) f eht script
            flags = Inr (rest @ [VCH_TRUE], int (length keys))
      \<longleftrightarrow> (\<exists>idxs. sig_blob_matches env sigs keys script f flags True = Inr idxs \<and>
             accepted idxs (length sigs))"
    unfolding st using tf
    by (cases "sig_blob_matches env sigs keys script f flags True") auto
  also have "\<dots> \<longleftrightarrow> (\<exists>idxs. sig_blob_matches env sigs keys script f flags False = Inr idxs \<and>
             accepted idxs (length sigs))"
    using sig_blob_matches_early_full by blast
  finally show ?thesis
    by (simp add: accepted_def strictly_increasing_sorted)
qed

lemma op_checkmultisig_order_example:
  "op_checkmultisig example_env [[], [2, 9, 1], [1, 9, 1], [2], [1], [2], [3], [3]]
     (\<lambda>t s. Inr 0) None [] no_flags = Inr ([VCH_FALSE], 3) \<and>
   op_checkmultisig example_env [[], [1, 9, 1], [2, 9, 1], [2], [1], [2], [3], [3]]
     (\<lambda>t s. Inr 0) None [] no_flags = Inr ([VCH_TRUE], 3)"
proof -
  let ?f = "\<lambda>(t::nat) (s::bytes). Inr 0 :: exn + int"
  let ?keys = "[[3], [2], [1 :: byte]]"
  have kc: "int_from_script_bytes example_env [3] (VERIFY_MINIMALDATA no_flags)
      = Inr (int (length ?keys))"
    by (simp add: example_env_def)
  have sc: "int_from_script_bytes example_env [2] (VERIFY_MINIMALDATA no_flags)
      = Inr (int (length [[1, 9, 1], [2, 9, 1 :: byte]]))"
    by (simp add: example_env_def)
  have sc': "int_from_script_bytes example_env [2] (VERIFY_MINIMALDATA no_flags)
      = Inr (int (length [[2, 9, 1], [1, 9, 1 :: byte]]))"
    by (simp add: example_env_def)
  have nd: "VERIFY_NULLDUMMY no_flags \<longrightarrow> ([] :: bytes) = []" by simp
  have m1: "sig_blob_matches example_env [[1, 9, 1], [2, 9, 1]] ?keys [] ?f no_flags True
      = Inr [2, 1]"
    by (simp add: example_defs)
  have m2: "sig_blob_matches example_env [[2, 9, 1], [1, 9, 1]] ?keys [] ?f no_flags True
      = Inr [1, 2]"
    by (simp add: example_defs)
  have r1: "op_checkmultisig example_env [[], [2, 9, 1], [1, 9, 1], [2], [1], [2], [3], [3]]
     ?f None [] no_flags = Inr ([VCH_FALSE], 3)"
    using op_checkmultisig_stack [OF kc sc _ _ nd, of "[]" ?f None "[]"] m1
    by (simp add: accepted_def)
  have r2: "op_checkmultisig example_env [[], [1, 9, 1], [2, 9, 1], [2], [1], [2], [3], [3]]
     ?f None [] no_flags = Inr ([VCH_TRUE], 3)"
    using op_checkmultisig_stack [OF kc sc' _ _ nd, of "[]" ?f None "[]"] m2
    by (simp add: accepted_def)
  show ?thesis using r1 r2 by blast
qed

lemma match_loop_parse_error:
  assumes "parse_signature_blob env sig_blob flags = Inl e" "e \<noteq> UnexpectedDER"
  shows "match_loop env flags exit_early keys f script (sig_blob # sigs) idxs cache = Inl e"
  using assms by (simp add: match_loop_Cons match_one_def)

text \<open>
  Claim C3 says that the opcode never aborts the evaluation merely because of a mismatch.
  It does: \<open>sig_blob_matches\<close> catches \<open>der.UnexpectedDER\<close> alone around
  \<open>parse_signature_blob\<close>, so a signature blob on which the DER decoder raises ValueError
  makes \<open>op_checkmultisig\<close> raise ValueError, with none of the DER-only, low-S and
  strict-encoding flags set and on a stack that is otherwise in order. On the same blob
  \<open>op_checksig\<close>, whose \<open>except\<close> clause names ValueError, pushes false and continues.
\<close>

theorem op_checkmultisig_decoder_abort:
  assumes "int_from_script_bytes env kc (VERIFY_MINIMALDATA flags) = Inr (int (length keys))"
    and "int_from_script_bytes env sc (VERIFY_MINIMALDATA flags)
           = Inr (int (length (sig_blob # sigs)))"
    and "length (sig_blob # sigs) \<le> length keys" "length keys \<le> 20"
    and "VERIFY_NULLDUMMY flags \<longrightarrow> dummy = []"
    and "drop_signatures (sig_blob # sigs) script = Inr script'"
    and "\<not> VERIFY_DERSIG flags" "\<not> VERIFY_LOW_S flags" "\<not> VERIFY_STRICTENC flags"
    and "sig_blob \<noteq> []"
    and "sigdecode_der env (butlast sig_blob) = Inl ValueError"
  shows "op_checkmultisig env (rest @ [dummy] @ rev (sig_blob # sigs) @ [sc] @ rev keys @ [kc])
           f eht script flags = Inl ValueError \<and>
         op_checksig env (rest @ [sig_blob, pair_blob]) f eht script flags
           = Inr (rest @ [VCH_FALSE])"
proof -
  have p: "parse_signature_blob env sig_blob flags = Inl ValueError"
    using assms(7-11) by (simp add: parse_signature_blob_def)
  have "sig_blob_matches env (sig_blob # sigs) keys script f flags True = Inl ValueError"
    unfolding sig_blob_matches_def assms(6)
    using match_loop_parse_error [OF p] by simp
  then have a: "op_checkmultisig env
      (rest @ [dummy] @ rev (sig_blob # sigs) @ [sc] @ rev keys @ [kc]) f eht script flags
      = Inl ValueError"
    using op_checkmultisig_stack [OF assms(1,2,3,4,5), of rest f eht script] by simp
  have b: "op_checksig env (rest @ [sig_blob, pair_blob]) f eht script flags
      = Inr (rest @ [VCH_FALSE])"
    using op_checksig_parse_error [of flags pair_blob env sig_blob ValueError rest f eht script]
      p assms(9)
    by simp
  show ?thesis using a b by simp
qed

theorem op_checkmultisig_decoder_abort_witness:
  "op_checkmultisig example_env [[], [0x30, 0x04, 0x02, 0x00, 0x02, 0x00, 0x01], [1], [1], [1]]
     (\<lambda>t s. Inr 0) None [] no_flags = Inl ValueError \<and>
   op_checksig example_env [[0x30, 0x04, 0x02, 0x00, 0x02, 0x00, 0x01], [1]]
     (\<lambda>t s. Inr 0) None [] no_flags = Inr [VCH_FALSE]"
proof -
  let ?f = "\<lambda>(t::nat) (s::bytes). Inr 0 :: exn + int"
  let ?sig = "[0x30, 0x04, 0x02, 0x00, 0x02, 0x00, 0x01 :: byte]"
  have kc: "int_from_script_bytes example_env [1] (VERIFY_MINIMALDATA no_flags)
      = Inr (int (length [[1 :: byte]]))"
    by (simp add: example_env_def)
  have sc: "int_from_script_bytes example_env [1] (VERIFY_MINIMALDATA no_flags)
      = Inr (int (length (?sig # [])))"
    by (simp add: example_env_def)
  have nd: "VERIFY_NULLDUMMY no_flags \<longrightarrow> ([] :: bytes) = []" by simp
  have ds: "drop_signatures (?sig # []) [] = Inr []"
    by (simp add: bin_script_def push_data_cases delete_subscript_def)
  have fl: "\<not> VERIFY_DERSIG no_flags" "\<not> VERIFY_LOW_S no_flags" "\<not> VERIFY_STRICTENC no_flags"
    by (simp_all add: no_flags_def)
  have ne: "?sig \<noteq> []" by simp
  have de: "sigdecode_der example_env (butlast ?sig) = Inl ValueError"
    by (simp add: example_env_def)
  have le: "length (?sig # []) \<le> length [[1 :: byte]]" "length [[1 :: byte]] \<le> 20"
    by simp_all
  from op_checkmultisig_decoder_abort [OF kc sc le nd ds fl ne de, of "[]" ?f None "[1]"]
  show ?thesis by simp
qed

section \<open>Properties of the assembler and the disassembler\<close>

lemmas assembler_defs = compile_def py_split_def is_space_def compile_token_def
  OPCODE_TO_INT_def INT_TO_OPCODE_def OPCODE_LIST_def hex_value_def hex_digit_def
  bytes_from_int_def disassemble_def opcode_list_def disassemble_for_opcode_data_def
  get_opcode_def py_slice_def opcode_defs

lemma standard_script_bytes:
  "standard_tx_out_script OPCODE_TO_INT example_hash160
     = Inr ([0x76, 0xa9, 0x14] @ example_hash160 @ [0x88, 0xac])"
  by (simp add: standard_tx_out_script_def example_hash160_def assembler_defs push_data_cases)

lemma standard_script_disassembled:
  "bind_e (standard_tx_out_script OPCODE_TO_INT example_hash160) (disassemble INT_TO_OPCODE)
     = Inr (join_space [''OP_DUP'', ''OP_HASH160'', ''['' @ hexlify example_hash160 @ '']'',
                        ''OP_EQUALVERIFY'', ''OP_CHECKSIG''])"
  by (simp add: standard_script_bytes)
     (simp add: example_hash160_def assembler_defs)

text \<open>
  Claim C9, as stated, fails: the disassembly of the standard output script for the
  hash160 745e5b81fd30ca1e90311b012badabaa4411ae1a is not the text of the claim, in which
  the hash stands bare between the opcode names.
\<close>

theorem standard_script_disassembly_unbracketed:
  "bind_e (standard_tx_out_script OPCODE_TO_INT example_hash160) (disassemble INT_TO_OPCODE)
     \<noteq> Inr ''OP_DUP OP_HASH160 745e5b81fd30ca1e90311b012badabaa4411ae1a OP_EQUALVERIFY OP_CHECKSIG''"
  by (simp add: standard_script_disassembled)

text \<open>
  Claim C9, amended. The standard output script for the hash160
  745e5b81fd30ca1e90311b012badabaa4411ae1a disassembles to exactly the text
  \<open>OP_DUP OP_HASH160 [745e5b81fd30ca1e90311b012badabaa4411ae1a] OP_EQUALVERIFY OP_CHECKSIG\<close>:
  \<open>disassemble_for_opcode_data\<close> writes pushed data as its hexadecimal digits between
  square brackets, which \<open>compile\<close> strips when it reads the text back.
\<close>

theorem standard_script_disassembly:
  "bind_e (standard_tx_out_script OPCODE_TO_INT example_hash160) (disassemble INT_TO_OPCODE)
     = Inr ''OP_DUP OP_HASH160 [745e5b81fd30ca1e90311b012badabaa4411ae1a] OP_EQUALVERIFY OP_CHECKSIG''"
  by (simp add: standard_script_disassembled)
     (simp add: example_hash160_def hex_digit_def)

text \<open>
  Claim C8. The script 0x01 0x00, the literal push of the single byte 0x00, disassembles
  to \<open>[00]\<close>, which compiles to the one-byte script 0x00: compiling the disassembly does
  not give the script back.
\<close>

theorem roundtrip_zero_byte_push:
  "disassemble INT_TO_OPCODE [0x01, 0x00] = Inr ''[00]'' \<and>
   compile OPCODE_TO_INT ''[00]'' = Inr [0x00] \<and>
   bind_e (disassemble INT_TO_OPCODE [0x01, 0x00]) (compile OPCODE_TO_INT) \<noteq> Inr [0x01, 0x00]"
  by (simp add: assembler_defs push_data_cases)

section \<open>Properties of the multisig solver\<close>

text \<open>
  Claim C4. Whatever the descriptor, the key lookup and the collaborators, \<open>solve\<close> with a
  non-empty existing script raises UnboundLocalError and returns no script. Without an
  existing script, the 2-of-3 example with one key in the lookup gives OP\_0, the push of
  the one real signature and the push of the one-byte placeholder.
\<close>

theorem solve_existing_script:
  "solve table hash160 create_script_signature dummy_signature self (Some db) sign_value
     signature_type (Some (b # bs)) = Inl UnboundLocalError \<and>
   solve OPCODE_TO_INT (\<lambda>k. k) example_signature (\<lambda>t. [of_nat t]) example_multisig
     (Some [[0x02, 0x0b] \<mapsto> (5, (0, 0), True)]) 7 1 None
     = Inr ([0x00, 0x09] @ example_signature 5 7 1 @ [0x51])"
  by (simp add: solve_def example_multisig_def example_signature_def assembler_defs
      push_data_cases)

end
